theory Spec2Isabelle
  imports Complex_Main
begin

section \<open>The QuickScalpMACD strategy (src/strategies/crossover.py)\<close>

text \<open>
  The strategy is a class with three mutable fields (\<open>in_trade\<close>, \<open>entry_price\<close>,
  \<open>bars_in_trade\<close>), a dictionary of parameters and two methods, \<open>_calc_size\<close> and
  \<open>next\<close>. The embedding below follows the Python line by line.

  Python floats are modelled as the real numbers: rounding, infinities and NaN are outside
  this model (a second embedding further down adds the infinities and NaN, for the
  question of what a malformed bar does). Python integers are \<open>int\<close>. The indicator lines (\<open>bt.ind.MACD\<close>,
  \<open>bt.ind.CrossOver\<close>, \<open>bt.ind.EMA\<close>, \<open>bt.ind.RSI\<close>) and the broker belong to the
  backtrader library; \<open>next\<close> only reads their current values, so those readings are
  inputs of the step function.
\<close>

subsection \<open>Parameters\<close>

record params =
  ema_period :: nat
  macd_fast :: nat
  macd_slow :: nat
  macd_signal :: nat
  rsi_period :: nat
  rsi_oversold :: real
  risk_per_trade :: real
  tp_pct :: real
  sl_pct :: real
  max_bars_in_trade :: int
  ema_tolerance :: real

text \<open>The class attribute \<open>params = dict(...)\<close>, lines 23-38.\<close>

definition default_params :: params where
  "default_params =
     \<lparr> ema_period = 200,
       macd_fast = 12,
       macd_slow = 26,
       macd_signal = 9,
       rsi_period = 14,
       rsi_oversold = 40,
       risk_per_trade = 1,
       tp_pct = 1 / 1000,
       sl_pct = 1 / 1000,
       max_bars_in_trade = 50,
       ema_tolerance = 5 / 1000 \<rparr>"

subsection \<open>What one call of \<open>next\<close> reads\<close>

text \<open>
  The data feed carries the columns Open, High, Low, Close, Volume
  (\<open>download_data\<close> in src/backtest/run_scalp.py). Of these \<open>next\<close> reads the close only.
  The remaining fields are the values \<open>next\<close> reads from the indicator lines and the
  broker: \<open>self.ema[0]\<close>, \<open>self.macd.macd[0]\<close>, \<open>self.rsi[0]\<close>, \<open>self.macd.macd[-1]\<close>,
  \<open>self.macd.signal[-1]\<close>, \<open>self.rsi[-1]\<close>, \<open>self.cross\<close> and \<open>self.broker.getvalue()\<close>.
\<close>

record feed =
  data_open :: real
  data_high :: real
  data_low :: real
  data_close :: real
  data_volume :: real
  ema_0 :: real
  macd_0 :: real
  rsi_0 :: real
  macd_m1 :: real
  signal_m1 :: real
  rsi_m1 :: real
  cross_0 :: real
  broker_value :: real

subsection \<open>The strategy's state and what a step produces\<close>

record strategy =
  in_trade :: bool
  entry_price :: "real option"
  bars_in_trade :: int

text \<open>The fields as \<open>__init__\<close> sets them, lines 59-61.\<close>

definition init :: strategy where
  "init = \<lparr> in_trade = False, entry_price = None, bars_in_trade = 0 \<rparr>"

text \<open>
  The exit reason is a formatted string in the source; the datatype keeps which branch
  built it and the numbers it was built from.
\<close>

datatype exit_reason =
    TP_hit real real
  | SL_hit real real
  | MACD_cross_down
  | Max_bars_reached int

text \<open>
  \<open>ENTER_LONG n\<close> is the call \<open>self.buy(size=n)\<close>, \<open>EXIT r\<close> the call \<open>self.close()\<close>
  with reason \<open>r\<close> logged, and \<open>HOLD\<close> a call of \<open>next\<close> that places no order.
\<close>

datatype decision = ENTER_LONG int | EXIT exit_reason | HOLD

text \<open>
  \<open>next\<close> raises nothing itself; the one operation that can fail in the model is
  \<open>self.entry_price * (1 + self.p.tp_pct)\<close> when \<open>entry_price\<close> is still \<open>None\<close>.
\<close>

datatype error = TypeError

subsection \<open>\<open>_calc_size\<close>, lines 63-82\<close>

text \<open>
  The division \<open>equity / price\<close> is only reached when \<open>price * sl_pct > 0\<close>, hence with
  \<open>price \<noteq> 0\<close>: no ZeroDivisionError is possible.
\<close>

definition calc_size :: "params \<Rightarrow> real \<Rightarrow> real \<Rightarrow> int" where
  "calc_size p equity price =
     (let risk_cap = equity * risk_per_trade p;
          sl_dist = price * sl_pct p
      in if sl_dist \<le> 0 then 0
         else
           (let raw_risk_size = risk_cap / sl_dist;
                max_affordable = \<lfloor>equity / price\<rfloor>;
                size = min raw_risk_size (of_int max_affordable)
            in max 1 \<lfloor>size\<rfloor>))"

subsection \<open>\<open>next\<close>, lines 84-159\<close>

definition next_step :: "params \<Rightarrow> feed \<Rightarrow> strategy \<Rightarrow> error + (strategy \<times> decision)" where
  "next_step p b s =
     (let price = data_close b;
          ema_val = ema_0 b;
          macd_val = macd_0 b;
          rsi_val = rsi_0 b;
          prev_rsi = rsi_m1 b;
          s1 = s\<lparr>bars_in_trade := (if in_trade s then bars_in_trade s + 1 else 0)\<rparr>
      in if \<not> in_trade s1 then
           (let ema_floor = ema_val * (1 - ema_tolerance p);
                macd_cross_up = (cross_0 b > 0);
                macd_below_zero = (macd_val < 0);
                rsi_oversold_and_rising = (rsi_val < rsi_oversold p \<and> rsi_val > prev_rsi);
                ema_trend_ok = (price \<ge> ema_floor);
                buy_condition =
                  (macd_cross_up \<and> macd_below_zero \<and> rsi_oversold_and_rising \<and> ema_trend_ok)
            in if buy_condition then
                 (let size = calc_size p (broker_value b) price
                  in if size \<le> 0 then Inr (s1, HOLD)
                     else Inr (s1\<lparr>entry_price := Some price, in_trade := True\<rparr>,
                               ENTER_LONG size))
               else Inr (s1, HOLD))
         else
           (case entry_price s1 of
              None \<Rightarrow> Inl TypeError
            | Some ep \<Rightarrow>
                (let tp_price = ep * (1 + tp_pct p);
                     sl_price = ep * (1 - sl_pct p);
                     exit_reason =
                       (if price \<ge> tp_price then Some (TP_hit price tp_price)
                        else if price \<le> sl_price then Some (SL_hit price sl_price)
                        else if cross_0 b < 0 then Some MACD_cross_down
                        else if bars_in_trade s1 \<ge> max_bars_in_trade p
                        then Some (Max_bars_reached (bars_in_trade s1))
                        else None)
                 in case exit_reason of
                      Some r \<Rightarrow> Inr (s1\<lparr>in_trade := False\<rparr>, EXIT r)
                    | None \<Rightarrow> Inr (s1, HOLD))))"

text \<open>
  A run: the framework (\<open>cerebro.run()\<close>) calls \<open>next\<close> once per bar, in order, on the
  same strategy object; an exception ends the run.
\<close>

fun run :: "params \<Rightarrow> strategy \<Rightarrow> feed list \<Rightarrow> error + (strategy \<times> decision list)" where
  "run p s [] = Inr (s, [])"
| "run p s (b # bs) =
     (case next_step p b s of
        Inl e \<Rightarrow> Inl e
      | Inr (s', d) \<Rightarrow>
          (case run p s' bs of
             Inl e \<Rightarrow> Inl e
           | Inr (s'', ds) \<Rightarrow> Inr (s'', d # ds)))"

subsection \<open>The same two methods over floats with infinities and NaN\<close>

text \<open>
  A Python float is a finite number, an infinity or NaN. Finite arithmetic stays exact, as
  above; the operations below add what Python does with the special values. Every
  comparison with NaN is false. Float division by zero raises ZeroDivisionError whatever
  the numerator; \<open>math.floor\<close> raises OverflowError on an infinity and ValueError on NaN.
  \<open>Fin 0\<close> stands for both signed zeros, which compare, divide and floor alike here.
\<close>

datatype pyfloat = Fin real | PInf | NInf | NaN

datatype py_exception = PyTypeError | PyZeroDivisionError | PyValueError | PyOverflowError

fun f_lt :: "pyfloat \<Rightarrow> pyfloat \<Rightarrow> bool" where
  "f_lt NaN b = False"
| "f_lt a NaN = False"
| "f_lt PInf b = False"
| "f_lt a NInf = False"
| "f_lt NInf b = True"
| "f_lt (Fin x) PInf = True"
| "f_lt (Fin x) (Fin y) = (x < y)"

fun f_le :: "pyfloat \<Rightarrow> pyfloat \<Rightarrow> bool" where
  "f_le NaN b = False"
| "f_le a NaN = False"
| "f_le NInf b = True"
| "f_le a PInf = True"
| "f_le PInf b = False"
| "f_le (Fin x) NInf = False"
| "f_le (Fin x) (Fin y) = (x \<le> y)"

definition f_gt :: "pyfloat \<Rightarrow> pyfloat \<Rightarrow> bool" where
  "f_gt a b = f_lt b a"

definition f_ge :: "pyfloat \<Rightarrow> pyfloat \<Rightarrow> bool" where
  "f_ge a b = f_le b a"

fun f_mul :: "pyfloat \<Rightarrow> pyfloat \<Rightarrow> pyfloat" where
  "f_mul NaN b = NaN"
| "f_mul a NaN = NaN"
| "f_mul (Fin x) (Fin y) = Fin (x * y)"
| "f_mul (Fin x) PInf = (if x = 0 then NaN else if x > 0 then PInf else NInf)"
| "f_mul (Fin x) NInf = (if x = 0 then NaN else if x > 0 then NInf else PInf)"
| "f_mul PInf (Fin y) = (if y = 0 then NaN else if y > 0 then PInf else NInf)"
| "f_mul NInf (Fin y) = (if y = 0 then NaN else if y > 0 then NInf else PInf)"
| "f_mul PInf PInf = PInf"
| "f_mul PInf NInf = NInf"
| "f_mul NInf PInf = NInf"
| "f_mul NInf NInf = PInf"

fun f_div :: "pyfloat \<Rightarrow> pyfloat \<Rightarrow> py_exception + pyfloat" where
  "f_div a (Fin y) =
     (if y = 0 then Inl PyZeroDivisionError
      else case a of
             Fin x \<Rightarrow> Inr (Fin (x / y))
           | PInf \<Rightarrow> Inr (if y > 0 then PInf else NInf)
           | NInf \<Rightarrow> Inr (if y > 0 then NInf else PInf)
           | NaN \<Rightarrow> Inr NaN)"
| "f_div a NaN = Inr NaN"
| "f_div (Fin x) b = Inr (Fin 0)"
| "f_div a b = Inr NaN"

text \<open>\<open>math.floor\<close>.\<close>

fun py_floor :: "pyfloat \<Rightarrow> py_exception + int" where
  "py_floor (Fin x) = Inr \<lfloor>x\<rfloor>"
| "py_floor NaN = Inl PyValueError"
| "py_floor a = Inl PyOverflowError"

text \<open>The builtin \<open>min(a, b)\<close>: it keeps \<open>a\<close> unless \<open>b < a\<close>.\<close>

definition py_min :: "pyfloat \<Rightarrow> pyfloat \<Rightarrow> pyfloat" where
  "py_min a b = (if f_lt b a then b else a)"

record feed_float =
  f_open :: pyfloat
  f_high :: pyfloat
  f_low :: pyfloat
  f_close :: pyfloat
  f_volume :: pyfloat
  f_ema_0 :: pyfloat
  f_macd_0 :: pyfloat
  f_rsi_0 :: pyfloat
  f_macd_m1 :: pyfloat
  f_signal_m1 :: pyfloat
  f_rsi_m1 :: pyfloat
  f_cross_0 :: pyfloat
  f_broker_value :: pyfloat

record strategy_float =
  f_in_trade :: bool
  f_entry_price :: "pyfloat option"
  f_bars_in_trade :: int

datatype exit_reason_float =
    F_TP_hit pyfloat pyfloat
  | F_SL_hit pyfloat pyfloat
  | F_MACD_cross_down
  | F_Max_bars_reached int

datatype decision_float = F_ENTER_LONG int | F_EXIT exit_reason_float | F_HOLD

text \<open>\<open>_calc_size\<close>, lines 63-82, with the exceptions of its divisions and floors.\<close>

definition calc_size_float :: "params \<Rightarrow> pyfloat \<Rightarrow> pyfloat \<Rightarrow> py_exception + int" where
  "calc_size_float p equity price =
     (let risk_cap = f_mul equity (Fin (risk_per_trade p));
          sl_dist = f_mul price (Fin (sl_pct p))
      in if f_le sl_dist (Fin 0) then Inr 0
         else
           (case f_div risk_cap sl_dist of
              Inl e \<Rightarrow> Inl e
            | Inr raw_risk_size \<Rightarrow>
                (case f_div equity price of
                   Inl e \<Rightarrow> Inl e
                 | Inr q \<Rightarrow>
                     (case py_floor q of
                        Inl e \<Rightarrow> Inl e
                      | Inr max_affordable \<Rightarrow>
                          (let size = py_min raw_risk_size (Fin (of_int max_affordable))
                           in case py_floor size of
                                Inl e \<Rightarrow> Inl e
                              | Inr k \<Rightarrow> Inr (max 1 k))))))"

text \<open>\<open>next\<close>, lines 84-159.\<close>

definition next_step_float ::
  "params \<Rightarrow> feed_float \<Rightarrow> strategy_float \<Rightarrow> py_exception + (strategy_float \<times> decision_float)" where
  "next_step_float p b s =
     (let price = f_close b;
          ema_val = f_ema_0 b;
          macd_val = f_macd_0 b;
          rsi_val = f_rsi_0 b;
          prev_rsi = f_rsi_m1 b;
          s1 = s\<lparr>f_bars_in_trade := (if f_in_trade s then f_bars_in_trade s + 1 else 0)\<rparr>
      in if \<not> f_in_trade s1 then
           (let ema_floor = f_mul ema_val (Fin (1 - ema_tolerance p));
                macd_cross_up = f_gt (f_cross_0 b) (Fin 0);
                macd_below_zero = f_lt macd_val (Fin 0);
                rsi_oversold_and_rising =
                  (f_lt rsi_val (Fin (rsi_oversold p)) \<and> f_gt rsi_val prev_rsi);
                ema_trend_ok = f_ge price ema_floor;
                buy_condition =
                  (macd_cross_up \<and> macd_below_zero \<and> rsi_oversold_and_rising \<and> ema_trend_ok)
            in if buy_condition then
                 (case calc_size_float p (f_broker_value b) price of
                    Inl e \<Rightarrow> Inl e
                  | Inr sz \<Rightarrow>
                      if sz \<le> 0 then Inr (s1, F_HOLD)
                      else Inr (s1\<lparr>f_entry_price := Some price, f_in_trade := True\<rparr>,
                                F_ENTER_LONG sz))
               else Inr (s1, F_HOLD))
         else
           (case f_entry_price s1 of
              None \<Rightarrow> Inl PyTypeError
            | Some ep \<Rightarrow>
                (let tp_price = f_mul ep (Fin (1 + tp_pct p));
                     sl_price = f_mul ep (Fin (1 - sl_pct p));
                     exit_reason =
                       (if f_ge price tp_price then Some (F_TP_hit price tp_price)
                        else if f_le price sl_price then Some (F_SL_hit price sl_price)
                        else if f_lt (f_cross_0 b) (Fin 0) then Some F_MACD_cross_down
                        else if f_bars_in_trade s1 \<ge> max_bars_in_trade p
                        then Some (F_Max_bars_reached (f_bars_in_trade s1))
                        else None)
                 in case exit_reason of
                      Some r \<Rightarrow> Inr (s1\<lparr>f_in_trade := False\<rparr>, F_EXIT r)
                    | None \<Rightarrow> Inr (s1, F_HOLD))))"

text \<open>The finite values seen as floats.\<close>

definition feed_to_float :: "feed \<Rightarrow> feed_float" where
  "feed_to_float b =
     \<lparr> f_open = Fin (data_open b), f_high = Fin (data_high b), f_low = Fin (data_low b),
       f_close = Fin (data_close b), f_volume = Fin (data_volume b),
       f_ema_0 = Fin (ema_0 b), f_macd_0 = Fin (macd_0 b), f_rsi_0 = Fin (rsi_0 b),
       f_macd_m1 = Fin (macd_m1 b), f_signal_m1 = Fin (signal_m1 b),
       f_rsi_m1 = Fin (rsi_m1 b), f_cross_0 = Fin (cross_0 b),
       f_broker_value = Fin (broker_value b) \<rparr>"

definition strategy_to_float :: "strategy \<Rightarrow> strategy_float" where
  "strategy_to_float s =
     \<lparr> f_in_trade = in_trade s, f_entry_price = map_option Fin (entry_price s),
       f_bars_in_trade = bars_in_trade s \<rparr>"

fun reason_to_float :: "exit_reason \<Rightarrow> exit_reason_float" where
  "reason_to_float (TP_hit x y) = F_TP_hit (Fin x) (Fin y)"
| "reason_to_float (SL_hit x y) = F_SL_hit (Fin x) (Fin y)"
| "reason_to_float MACD_cross_down = F_MACD_cross_down"
| "reason_to_float (Max_bars_reached n) = F_Max_bars_reached n"

fun decision_to_float :: "decision \<Rightarrow> decision_float" where
  "decision_to_float (ENTER_LONG n) = F_ENTER_LONG n"
| "decision_to_float (EXIT r) = F_EXIT (reason_to_float r)"
| "decision_to_float HOLD = F_HOLD"

subsection \<open>The exit rules as the specification words them\<close>

text \<open>
  The specification describes the exit as an ordered list of (condition, reason) pairs, of
  which the first whose condition holds gives the reason. These two definitions follow
  those words; they are compared with \<open>next_step\<close> below.
\<close>

fun spec_first_match :: "(bool \<times> exit_reason) list \<Rightarrow> exit_reason option" where
  "spec_first_match [] = None"
| "spec_first_match ((c, r) # rest) = (if c then Some r else spec_first_match rest)"

definition spec_exit_rules :: "params \<Rightarrow> real \<Rightarrow> feed \<Rightarrow> int \<Rightarrow> (bool \<times> exit_reason) list" where
  "spec_exit_rules p ep b held =
     [(data_close b \<ge> ep * (1 + tp_pct p), TP_hit (data_close b) (ep * (1 + tp_pct p))),
      (data_close b \<le> ep * (1 - sl_pct p), SL_hit (data_close b) (ep * (1 - sl_pct p))),
      (cross_0 b < 0, MACD_cross_down),
      (held \<ge> max_bars_in_trade p, Max_bars_reached held)]"

subsection \<open>Concrete inputs\<close>

text \<open>
  A bar on which every entry condition holds under the default parameters: close 99.6
  against an EMA of 100 (floor 99.5), MACD below zero with the cross indicator at 1,
  RSI rising from 25 to 28, equity 10000.
\<close>

definition entry_bar :: feed where
  "entry_bar =
     \<lparr> data_open = 498 / 5, data_high = 498 / 5, data_low = 498 / 5, data_close = 498 / 5,
       data_volume = 1000,
       ema_0 = 100, macd_0 = - (3 / 10), rsi_0 = 28,
       macd_m1 = - (6 / 10), signal_m1 = - (5 / 10), rsi_m1 = 25,
       cross_0 = 1, broker_value = 10000 \<rparr>"

text \<open>The same bar with the price held and no cross: no exit condition but the time stop can match.\<close>

definition flat_bar :: feed where
  "flat_bar = entry_bar\<lparr>cross_0 := 0\<rparr>"

text \<open>A later bar closing at 99.8, above the take-profit level 99.6 * 1.001.\<close>

definition tp_bar :: feed where
  "tp_bar = flat_bar\<lparr>data_close := 499 / 5\<rparr>"

text \<open>The entry bar seen with an equity of 50, less than the price of one unit.\<close>

definition poor_bar :: feed where
  "poor_bar = entry_bar\<lparr>broker_value := 50\<rparr>"


text \<open>Parameters with a three-bar time stop.\<close>

definition short_params :: params where
  "short_params = default_params\<lparr>max_bars_in_trade := 3\<rparr>"

text \<open>
  Parameters whose take-profit level lies below the stop-loss level, and a bar closing
  between the two (99.8 \<le> 99.85 \<le> 99.9 for an entry at 100).
\<close>

definition inverted_params :: params where
  "inverted_params = default_params\<lparr>tp_pct := - (2 / 1000)\<rparr>"

definition between_bar :: feed where
  "between_bar = flat_bar\<lparr>data_close := 1997 / 20\<rparr>"

definition long_at_100 :: strategy where
  "long_at_100 = \<lparr> in_trade = True, entry_price = Some 100, bars_in_trade = 0 \<rparr>"

text \<open>The strategy right after entering on \<open>entry_bar\<close>.\<close>

definition just_entered :: strategy where
  "just_entered = \<lparr> in_trade = True, entry_price = Some (498 / 5), bars_in_trade = 0 \<rparr>"

section \<open>Basic facts about the two methods\<close>

lemma calc_size_ge1: "price * sl_pct p > 0 \<Longrightarrow> calc_size p equity price \<ge> 1"
  by (simp add: calc_size_def Let_def)

lemma calc_size_stop: "price * sl_pct p \<le> 0 \<Longrightarrow> calc_size p equity price = 0"
  by (simp add: calc_size_def Let_def)

lemma calc_size_one:
  assumes "price * sl_pct p > 0" "0 \<le> equity" "equity < price"
  shows "\<lfloor>equity / price\<rfloor> = 0 \<and> calc_size p equity price = 1"
proof -
  have c: "\<lfloor>equity / price\<rfloor> = 0" using assms by (simp add: floor_eq_iff)
  have "min (equity * risk_per_trade p / (price * sl_pct p)) 0 \<le> 0" by simp
  then have "\<lfloor>min (equity * risk_per_trade p / (price * sl_pct p)) 0\<rfloor> \<le> 0"
    by (simp add: floor_le_iff)
  then show ?thesis using assms c by (simp add: calc_size_def Let_def)
qed

text \<open>The step when flat, and the step when long with an entry price.\<close>

lemma next_step_flat:
  assumes "\<not> in_trade s"
  shows "next_step p b s =
     (if cross_0 b > 0 \<and> macd_0 b < 0 \<and> rsi_0 b < rsi_oversold p \<and> rsi_0 b > rsi_m1 b
          \<and> data_close b \<ge> ema_0 b * (1 - ema_tolerance p)
          \<and> calc_size p (broker_value b) (data_close b) > 0
      then Inr (s\<lparr>bars_in_trade := 0, entry_price := Some (data_close b), in_trade := True\<rparr>,
                ENTER_LONG (calc_size p (broker_value b) (data_close b)))
      else Inr (s\<lparr>bars_in_trade := 0\<rparr>, HOLD))"
  using assms by (simp add: next_step_def Let_def)

lemma next_step_long:
  assumes "in_trade s" "entry_price s = Some ep"
  shows "next_step p b s =
     (if data_close b \<ge> ep * (1 + tp_pct p)
      then Inr (s\<lparr>bars_in_trade := bars_in_trade s + 1, in_trade := False\<rparr>,
                EXIT (TP_hit (data_close b) (ep * (1 + tp_pct p))))
      else if data_close b \<le> ep * (1 - sl_pct p)
      then Inr (s\<lparr>bars_in_trade := bars_in_trade s + 1, in_trade := False\<rparr>,
                EXIT (SL_hit (data_close b) (ep * (1 - sl_pct p))))
      else if cross_0 b < 0
      then Inr (s\<lparr>bars_in_trade := bars_in_trade s + 1, in_trade := False\<rparr>, EXIT MACD_cross_down)
      else if bars_in_trade s + 1 \<ge> max_bars_in_trade p
      then Inr (s\<lparr>bars_in_trade := bars_in_trade s + 1, in_trade := False\<rparr>,
                EXIT (Max_bars_reached (bars_in_trade s + 1)))
      else Inr (s\<lparr>bars_in_trade := bars_in_trade s + 1\<rparr>, HOLD))"
  using assms by (simp add: next_step_def Let_def)

lemma next_step_long_unset:
  assumes "in_trade s" "entry_price s = None"
  shows "next_step p b s = Inl TypeError"
  using assms by (simp add: next_step_def Let_def)

text \<open>
  The invariant of a run: a strategy that is in a trade has an entry price. It holds
  initially, every step keeps it, and under it a step never fails.
\<close>

lemma next_step_total:
  assumes "in_trade s \<longrightarrow> entry_price s \<noteq> None"
  shows "\<exists>s' d. next_step p b s = Inr (s', d) \<and> (in_trade s' \<longrightarrow> entry_price s' \<noteq> None)
           \<and> bars_in_trade s' = (if in_trade s then bars_in_trade s + 1 else 0)"
  using assms by (auto simp: next_step_def Let_def split: option.splits)

lemma run_total:
  assumes "in_trade s \<longrightarrow> entry_price s \<noteq> None"
  shows "\<exists>s' ds. run p s bs = Inr (s', ds) \<and> (in_trade s' \<longrightarrow> entry_price s' \<noteq> None)
           \<and> length ds = length bs"
  using assms
proof (induction bs arbitrary: s)
  case Nil
  then show ?case by simp
next
  case (Cons b bs)
  from next_step_total [OF Cons.prems, of p b]
  obtain s1 d where st: "next_step p b s = Inr (s1, d)"
    and inv1: "in_trade s1 \<longrightarrow> entry_price s1 \<noteq> None" by blast
  from Cons.IH [OF inv1]
  obtain s2 ds where r: "run p s1 bs = Inr (s2, ds)"
    and inv2: "in_trade s2 \<longrightarrow> entry_price s2 \<noteq> None" and len: "length ds = length bs" by blast
  show ?case using st r inv2 len by simp
qed

text \<open>
  While no other exit condition matches and the counter stays below the limit, a long
  position is held and the counter advances by one per bar.
\<close>

lemma run_quiet:
  assumes "in_trade s" "entry_price s = Some ep"
    and "\<forall>b \<in> set bs. \<not> data_close b \<ge> ep * (1 + tp_pct p)
                     \<and> \<not> data_close b \<le> ep * (1 - sl_pct p) \<and> \<not> cross_0 b < 0"
    and "bars_in_trade s + int (length bs) < max_bars_in_trade p"
  shows "run p s bs =
           Inr (s\<lparr>bars_in_trade := bars_in_trade s + int (length bs)\<rparr>, replicate (length bs) HOLD)"
  using assms
proof (induction bs arbitrary: s)
  case Nil
  then show ?case by simp
next
  case (Cons b bs)
  let ?s1 = "s\<lparr>bars_in_trade := bars_in_trade s + 1\<rparr>"
  have st: "next_step p b s = Inr (?s1, HOLD)"
    using Cons.prems by (simp add: next_step_long [of s ep])
  have "run p ?s1 bs =
          Inr (?s1\<lparr>bars_in_trade := bars_in_trade ?s1 + int (length bs)\<rparr>,
               replicate (length bs) HOLD)"
    using Cons.prems by (intro Cons.IH) simp_all
  then show ?case using st by (simp add: add.assoc)
qed

lemma run_append:
  "run p s (bs @ cs) =
     (case run p s bs of
        Inl e \<Rightarrow> Inl e
      | Inr (s', ds) \<Rightarrow>
          (case run p s' cs of
             Inl e \<Rightarrow> Inl e
           | Inr (s'', es) \<Rightarrow> Inr (s'', ds @ es)))"
  by (induction bs arbitrary: s) (auto split: sum.splits)

text \<open>Facts about the embedding over floats with special values.\<close>

lemma f_le_NaN [simp]: "\<not> f_le a NaN" "\<not> f_le NaN b"
  by (cases a; simp) simp

lemma calc_size_float_fin:
  "calc_size_float p (Fin equity) (Fin price) = Inr (calc_size p equity price)"
  by (auto simp: calc_size_float_def calc_size_def Let_def py_min_def min_def)

text \<open>On finite values the two embeddings of \<open>next\<close> agree.\<close>

lemma next_step_float_fin:
  "next_step_float p (feed_to_float b) (strategy_to_float s) =
     (case next_step p b s of
        Inl e \<Rightarrow> Inl PyTypeError
      | Inr (s', d) \<Rightarrow> Inr (strategy_to_float s', decision_to_float d))"
  by (auto simp: next_step_float_def next_step_def calc_size_float_fin Let_def f_gt_def f_ge_def
      feed_to_float_def strategy_to_float_def split: option.splits)










section \<open>Position sizing\<close>

text \<open>
  C9. With equity 10000, risk fraction 1.0, price 100 and stop-loss fraction 0.001 the
  stop distance is 0.1, the risk-based size is 100000, the affordability cap is
  floor(10000 / 100) = 100, and the sizer returns 100.
\<close>

theorem calc_size_boundary:
  "risk_per_trade default_params = 1
   \<and> sl_pct default_params = 1 / 1000
   \<and> 100 * sl_pct default_params = 1 / 10
   \<and> (10000 * risk_per_trade default_params) / (100 * sl_pct default_params) = 100000
   \<and> \<lfloor>10000 / 100 :: real\<rfloor> = 100
   \<and> calc_size default_params 10000 100 = 100"
  by (simp add: calc_size_def default_params_def Let_def)

text \<open>
  C2. The claim asks for size 0 whenever the capped value is not positive, as for equity
  50 and price 100, where the affordability cap is 0. The code returns 1 there: the
  final \<open>max(1, ...)\<close> lifts the cap of 0 to one unit.
\<close>

theorem calc_size_unaffordable:
  "\<lfloor>50 / 100 :: real\<rfloor> = 0
   \<and> min ((50 * risk_per_trade default_params) / (100 * sl_pct default_params))
         (of_int \<lfloor>50 / 100 :: real\<rfloor>) \<le> 0
   \<and> calc_size default_params 50 100 = 1"
  by (simp add: calc_size_def default_params_def Let_def)

text \<open>
  C10. Whenever the stop distance \<open>price * sl_pct\<close> is positive the sizer returns at
  least 1, and it returns 0 exactly when the stop distance is not positive. In
  particular, with \<open>0 \<le> equity < price\<close> the affordability cap is 0 and the result is 1,
  so a flat strategy whose entry conditions hold emits \<open>ENTER_LONG 1\<close> although one unit
  costs more than the equity.
\<close>

theorem calc_size_at_least_one:
  "(0 < price * sl_pct p \<longrightarrow> 1 \<le> calc_size p equity price)
   \<and> (calc_size p equity price = 0 \<longleftrightarrow> price * sl_pct p \<le> 0)
   \<and> (0 < price * sl_pct p \<and> 0 \<le> equity \<and> equity < price \<longrightarrow>
        \<lfloor>equity / price\<rfloor> = 0 \<and> calc_size p equity price = 1)
   \<and> (\<not> in_trade s \<and> 0 < cross_0 b \<and> macd_0 b < 0
        \<and> rsi_0 b < rsi_oversold p \<and> rsi_m1 b < rsi_0 b
        \<and> ema_0 b * (1 - ema_tolerance p) \<le> data_close b
        \<and> 0 < data_close b * sl_pct p
        \<and> 0 \<le> broker_value b \<and> broker_value b < data_close b \<longrightarrow>
        next_step p b s =
          Inr (s\<lparr>bars_in_trade := 0, entry_price := Some (data_close b), in_trade := True\<rparr>,
               ENTER_LONG 1))"
proof -
  have a: "0 < price * sl_pct p \<longrightarrow> 1 \<le> calc_size p equity price"
    by (simp add: calc_size_ge1)
  have b: "calc_size p equity price = 0 \<longleftrightarrow> price * sl_pct p \<le> 0"
    using calc_size_ge1 [of price p equity] calc_size_stop [of price p equity] by linarith
  have c: "0 < price * sl_pct p \<and> 0 \<le> equity \<and> equity < price \<longrightarrow>
             \<lfloor>equity / price\<rfloor> = 0 \<and> calc_size p equity price = 1"
    using calc_size_one [of price p equity] by blast
  have d: "next_step p b s =
             Inr (s\<lparr>bars_in_trade := 0, entry_price := Some (data_close b), in_trade := True\<rparr>,
                  ENTER_LONG 1)"
    if h: "\<not> in_trade s \<and> 0 < cross_0 b \<and> macd_0 b < 0
        \<and> rsi_0 b < rsi_oversold p \<and> rsi_m1 b < rsi_0 b
        \<and> ema_0 b * (1 - ema_tolerance p) \<le> data_close b
        \<and> 0 < data_close b * sl_pct p
        \<and> 0 \<le> broker_value b \<and> broker_value b < data_close b"
  proof -
    have "calc_size p (broker_value b) (data_close b) = 1"
      using h calc_size_one [of "data_close b" p "broker_value b"] by blast
    then show ?thesis using h by (simp add: next_step_flat)
  qed
  show ?thesis using a b c d by blast
qed

theorem calc_size_at_least_one_witness:
  "0 < 100 * sl_pct default_params
   \<and> (0::real) \<le> 50 \<and> (50::real) < 100
   \<and> \<lfloor>50 / 100 :: real\<rfloor> = 0
   \<and> calc_size default_params 50 100 = 1
   \<and> \<not> in_trade init
   \<and> broker_value poor_bar < data_close poor_bar
   \<and> next_step default_params poor_bar init =
       Inr (\<lparr> in_trade = True, entry_price = Some (498 / 5), bars_in_trade = 0 \<rparr>, ENTER_LONG 1)"
  using calc_size_at_least_one
      [where price = 100 and p = default_params and equity = 50 and s = init and b = poor_bar]
  by (simp add: default_params_def poor_bar_def entry_bar_def init_def)

section \<open>Entry\<close>

text \<open>
  C4. When the strategy is flat, a bar produces \<open>ENTER_LONG\<close> if and only if the cross
  indicator is positive, the MACD line is below zero, the RSI is below the oversold
  threshold and above the previous bar's RSI, the close is at least
  \<open>EMA * (1 - tolerance)\<close>, and the computed size is positive; the size emitted is the
  computed one. Otherwise the strategy stays flat and nothing is emitted.
\<close>

theorem entry_iff_conditions:
  assumes "\<not> in_trade s"
  shows
  "((\<exists>n s'. next_step p b s = Inr (s', ENTER_LONG n)) \<longleftrightarrow>
      (0 < cross_0 b \<and> macd_0 b < 0
       \<and> rsi_0 b < rsi_oversold p \<and> rsi_m1 b < rsi_0 b
       \<and> ema_0 b * (1 - ema_tolerance p) \<le> data_close b
       \<and> 0 < calc_size p (broker_value b) (data_close b)))
   \<and> ((0 < cross_0 b \<and> macd_0 b < 0
       \<and> rsi_0 b < rsi_oversold p \<and> rsi_m1 b < rsi_0 b
       \<and> ema_0 b * (1 - ema_tolerance p) \<le> data_close b
       \<and> 0 < calc_size p (broker_value b) (data_close b)) \<longrightarrow>
      next_step p b s =
        Inr (s\<lparr>bars_in_trade := 0, entry_price := Some (data_close b), in_trade := True\<rparr>,
             ENTER_LONG (calc_size p (broker_value b) (data_close b))))
   \<and> (\<not> (0 < cross_0 b \<and> macd_0 b < 0
       \<and> rsi_0 b < rsi_oversold p \<and> rsi_m1 b < rsi_0 b
       \<and> ema_0 b * (1 - ema_tolerance p) \<le> data_close b
       \<and> 0 < calc_size p (broker_value b) (data_close b)) \<longrightarrow>
      next_step p b s = Inr (s\<lparr>bars_in_trade := 0\<rparr>, HOLD)
      \<and> \<not> in_trade (s\<lparr>bars_in_trade := 0\<rparr>))"
  using assms by (auto simp: next_step_flat)

theorem entry_iff_conditions_witness:
  "\<not> in_trade init
   \<and> 0 < cross_0 entry_bar \<and> macd_0 entry_bar < 0
   \<and> rsi_0 entry_bar < rsi_oversold default_params \<and> rsi_m1 entry_bar < rsi_0 entry_bar
   \<and> ema_0 entry_bar * (1 - ema_tolerance default_params) \<le> data_close entry_bar
   \<and> calc_size default_params (broker_value entry_bar) (data_close entry_bar) = 100
   \<and> next_step default_params entry_bar init =
       Inr (\<lparr> in_trade = True, entry_price = Some (498 / 5), bars_in_trade = 0 \<rparr>,
            ENTER_LONG 100)
   \<and> next_step default_params flat_bar init = Inr (init, HOLD)"
proof -
  have f: "\<not> in_trade init" by (simp add: init_def)
  have sz: "calc_size default_params (broker_value entry_bar) (data_close entry_bar) = 100"
    by (simp add: calc_size_def default_params_def entry_bar_def Let_def)
  show ?thesis
    using entry_iff_conditions [OF f, where b = entry_bar and p = default_params]
      entry_iff_conditions [OF f, where b = flat_bar and p = default_params] sz
    by (simp add: default_params_def entry_bar_def flat_bar_def init_def)
qed

section \<open>Exit\<close>

text \<open>
  C3. While long, the exit conditions are tried in the order take-profit, stop-loss, MACD
  cross-down, time stop, and the first that matches gives the exit reason: the step agrees
  with the first match in the specification's ordered rule list, and holds when none
  matches. In particular a close that meets both the take-profit and the stop-loss
  threshold exits with the take-profit reason.
\<close>

theorem exit_priority_order:
  assumes "in_trade s" and "entry_price s = Some ep"
  shows
  "next_step p b s =
     (case spec_first_match (spec_exit_rules p ep b (bars_in_trade s + 1)) of
        Some r \<Rightarrow> Inr (s\<lparr>bars_in_trade := bars_in_trade s + 1, in_trade := False\<rparr>, EXIT r)
      | None \<Rightarrow> Inr (s\<lparr>bars_in_trade := bars_in_trade s + 1\<rparr>, HOLD))
   \<and> (ep * (1 + tp_pct p) \<le> data_close b \<and> data_close b \<le> ep * (1 - sl_pct p) \<longrightarrow>
        next_step p b s =
          Inr (s\<lparr>bars_in_trade := bars_in_trade s + 1, in_trade := False\<rparr>,
               EXIT (TP_hit (data_close b) (ep * (1 + tp_pct p)))))"
  using assms by (simp add: next_step_long [of s ep] spec_exit_rules_def)

theorem exit_priority_order_witness:
  "in_trade long_at_100 \<and> entry_price long_at_100 = Some 100
   \<and> 100 * (1 + tp_pct inverted_params) \<le> data_close between_bar
   \<and> data_close between_bar \<le> 100 * (1 - sl_pct inverted_params)
   \<and> next_step inverted_params between_bar long_at_100 =
       Inr (\<lparr> in_trade = False, entry_price = Some 100, bars_in_trade = 1 \<rparr>,
            EXIT (TP_hit (1997 / 20) (499 / 5)))"
proof -
  have l: "in_trade long_at_100" and e: "entry_price long_at_100 = Some 100"
    by (simp_all add: long_at_100_def)
  show ?thesis
    using exit_priority_order [OF l e, where b = between_bar and p = inverted_params]
    by (simp add: long_at_100_def inverted_params_def default_params_def between_bar_def
        flat_bar_def entry_bar_def spec_exit_rules_def)
qed

text \<open>
  C7. The counter \<open>bars_in_trade\<close> is 0 on the bar of entry and grows by exactly 1 on
  every later bar evaluated while long. On such a bar, if neither take-profit, stop-loss
  nor cross-down matches, the time stop fires if and only if the counter has reached
  \<open>max_bars_in_trade\<close>. Hence, starting right after an entry and feeding bars on which
  no higher-priority condition matches, every bar is held until the bar on which the
  counter first reaches \<open>max_bars_in_trade\<close>, and that bar exits with the time stop.
  (Exits are not evaluated on the entry bar itself, so with a limit below 1 the time stop
  fires on the first bar after the entry.)
\<close>

theorem bars_held_time_stop:
  "(\<not> in_trade s \<and> next_step p b s = Inr (s', ENTER_LONG n) \<longrightarrow> bars_in_trade s' = 0)
   \<and> (in_trade s \<and> next_step p b s = Inr (s', d) \<longrightarrow> bars_in_trade s' = bars_in_trade s + 1)
   \<and> (in_trade s \<and> entry_price s = Some ep
        \<and> \<not> ep * (1 + tp_pct p) \<le> data_close b \<and> \<not> data_close b \<le> ep * (1 - sl_pct p)
        \<and> \<not> cross_0 b < 0 \<longrightarrow>
        next_step p b s =
          (if max_bars_in_trade p \<le> bars_in_trade s + 1
           then Inr (s\<lparr>bars_in_trade := bars_in_trade s + 1, in_trade := False\<rparr>,
                     EXIT (Max_bars_reached (bars_in_trade s + 1)))
           else Inr (s\<lparr>bars_in_trade := bars_in_trade s + 1\<rparr>, HOLD)))
   \<and> (in_trade s \<and> entry_price s = Some ep \<and> bars_in_trade s = 0
        \<and> (\<forall>c \<in> set (bs @ [b]).
              \<not> ep * (1 + tp_pct p) \<le> data_close c \<and> \<not> data_close c \<le> ep * (1 - sl_pct p)
              \<and> \<not> cross_0 c < 0)
        \<and> int (length (bs @ [b])) = max 1 (max_bars_in_trade p) \<longrightarrow>
        run p s (bs @ [b]) =
          Inr (s\<lparr>bars_in_trade := int (length (bs @ [b])), in_trade := False\<rparr>,
               replicate (length bs) HOLD @ [EXIT (Max_bars_reached (int (length (bs @ [b]))))]))"
proof -
  have a: "bars_in_trade s' = 0"
    if "\<not> in_trade s \<and> next_step p b s = Inr (s', ENTER_LONG n)"
    using that by (auto simp: next_step_flat split: if_splits)
  have b: "bars_in_trade s' = bars_in_trade s + 1"
    if h: "in_trade s \<and> next_step p b s = Inr (s', d)"
  proof (cases "entry_price s")
    case None
    then show ?thesis using h by (auto simp: next_step_long_unset)
  next
    case (Some e)
    then show ?thesis using h by (auto simp: next_step_long [of s e] split: if_splits)
  qed
  have c: "next_step p b s =
          (if max_bars_in_trade p \<le> bars_in_trade s + 1
           then Inr (s\<lparr>bars_in_trade := bars_in_trade s + 1, in_trade := False\<rparr>,
                     EXIT (Max_bars_reached (bars_in_trade s + 1)))
           else Inr (s\<lparr>bars_in_trade := bars_in_trade s + 1\<rparr>, HOLD))"
    if "in_trade s \<and> entry_price s = Some ep
        \<and> \<not> ep * (1 + tp_pct p) \<le> data_close b \<and> \<not> data_close b \<le> ep * (1 - sl_pct p)
        \<and> \<not> cross_0 b < 0"
    using that by (simp add: next_step_long [of s ep])
  have d: "run p s (bs @ [b]) =
          Inr (s\<lparr>bars_in_trade := int (length (bs @ [b])), in_trade := False\<rparr>,
               replicate (length bs) HOLD @ [EXIT (Max_bars_reached (int (length (bs @ [b]))))])"
    if h: "in_trade s \<and> entry_price s = Some ep \<and> bars_in_trade s = 0
        \<and> (\<forall>c \<in> set (bs @ [b]).
              \<not> ep * (1 + tp_pct p) \<le> data_close c \<and> \<not> data_close c \<le> ep * (1 - sl_pct p)
              \<and> \<not> cross_0 c < 0)
        \<and> int (length (bs @ [b])) = max 1 (max_bars_in_trade p)"
  proof -
    let ?s1 = "s\<lparr>bars_in_trade := bars_in_trade s + int (length bs)\<rparr>"
    have lim: "bars_in_trade s + int (length bs) < max_bars_in_trade p \<or> bs = []"
      using h by (cases bs) (auto simp: max_def split: if_splits)
    have r1: "run p s bs = Inr (?s1, replicate (length bs) HOLD)"
    proof (cases "bs = []")
      case True
      then show ?thesis using h by simp
    next
      case False
      then have "bars_in_trade s + int (length bs) < max_bars_in_trade p" using lim by simp
      then show ?thesis using h by (intro run_quiet [where ep = ep]) simp_all
    qed
    have reach: "max_bars_in_trade p \<le> bars_in_trade ?s1 + 1"
      using h by (simp add: max_def split: if_splits)
    have l1: "in_trade ?s1" and e1: "entry_price ?s1 = Some ep"
      using h by simp_all
    have q: "\<not> ep * (1 + tp_pct p) \<le> data_close b" "\<not> data_close b \<le> ep * (1 - sl_pct p)"
      "\<not> cross_0 b < 0"
      using h by simp_all
    have "next_step p b ?s1 =
            Inr (?s1\<lparr>bars_in_trade := bars_in_trade ?s1 + 1, in_trade := False\<rparr>,
                 EXIT (Max_bars_reached (bars_in_trade ?s1 + 1)))"
      unfolding next_step_long [OF l1 e1] using q reach by simp
    then have r2: "run p ?s1 [b] =
            Inr (?s1\<lparr>bars_in_trade := bars_in_trade ?s1 + 1, in_trade := False\<rparr>,
                 [EXIT (Max_bars_reached (bars_in_trade ?s1 + 1))])"
      by simp
    show ?thesis using r1 r2 h by (simp add: run_append add.commute)
  qed
  show ?thesis using a b c d by blast
qed

theorem bars_held_time_stop_witness:
  "\<not> in_trade init
   \<and> next_step short_params entry_bar init = Inr (just_entered, ENTER_LONG 100)
   \<and> bars_in_trade just_entered = 0
   \<and> in_trade just_entered \<and> entry_price just_entered = Some (498 / 5)
   \<and> int (length [flat_bar, flat_bar, flat_bar]) = max 1 (max_bars_in_trade short_params)
   \<and> run short_params just_entered [flat_bar, flat_bar, flat_bar] =
       Inr (\<lparr> in_trade = False, entry_price = Some (498 / 5), bars_in_trade = 3 \<rparr>,
            [HOLD, HOLD, EXIT (Max_bars_reached 3)])"
proof -
  have en: "next_step short_params entry_bar init = Inr (just_entered, ENTER_LONG 100)"
    by (simp add: next_step_def calc_size_def Let_def short_params_def default_params_def
        entry_bar_def init_def just_entered_def)
  have pre: "in_trade just_entered \<and> entry_price just_entered = Some (498 / 5)
     \<and> bars_in_trade just_entered = 0
     \<and> (\<forall>c \<in> set ([flat_bar, flat_bar] @ [flat_bar]).
           \<not> 498 / 5 * (1 + tp_pct short_params) \<le> data_close c
           \<and> \<not> data_close c \<le> 498 / 5 * (1 - sl_pct short_params)
           \<and> \<not> cross_0 c < 0)
     \<and> int (length ([flat_bar, flat_bar] @ [flat_bar])) = max 1 (max_bars_in_trade short_params)"
    by (simp add: just_entered_def short_params_def default_params_def flat_bar_def
        entry_bar_def)
  have r: "run short_params just_entered ([flat_bar, flat_bar] @ [flat_bar]) =
          Inr (just_entered\<lparr>bars_in_trade := int (length ([flat_bar, flat_bar] @ [flat_bar])),
                            in_trade := False\<rparr>,
               replicate (length [flat_bar, flat_bar]) HOLD
                 @ [EXIT (Max_bars_reached (int (length ([flat_bar, flat_bar] @ [flat_bar]))))])"
    using pre
      bars_held_time_stop [where s = just_entered and p = short_params and b = flat_bar
        and ep = "498 / 5" and bs = "[flat_bar, flat_bar]"]
    by blast
  have z: "bars_in_trade just_entered = 0"
    using en
      bars_held_time_stop [where s = init and p = short_params and b = entry_bar
        and s' = just_entered and n = 100]
    by (simp add: init_def)
  have i: "\<not> in_trade init" by (simp add: init_def)
  show ?thesis
    using en z i pre r by (simp add: just_entered_def del: run.simps)
qed

section \<open>The state invariant\<close>

text \<open>
  C1, as the claim states it, fails: an exit sets \<open>in_trade\<close> to \<open>False\<close> and leaves
  \<open>entry_price\<close> as it was. After an entry at 99.6 and a take-profit exit on the next
  bar the strategy is flat with \<open>entry_price\<close> still 99.6.
\<close>

theorem entry_price_kept_after_exit:
  "run default_params init [entry_bar, tp_bar] =
     Inr (\<lparr> in_trade = False, entry_price = Some (498 / 5), bars_in_trade = 1 \<rparr>,
          [ENTER_LONG 100, EXIT (TP_hit (499 / 5) (498 / 5 * (1 + 1 / 1000)))])"
  by (simp add: next_step_def calc_size_def Let_def default_params_def
      entry_bar_def flat_bar_def tp_bar_def init_def)

text \<open>
  C1, amended. At every point of a run that starts from the initial state, a strategy
  that is in a trade has an entry price (so no step fails). \<open>ENTER_LONG\<close> is emitted
  only when flat; it puts the strategy in a trade and records the current close as the
  entry price. \<open>EXIT\<close> is emitted only when in a trade; it leaves the trade and keeps
  \<open>entry_price\<close> unchanged. \<open>HOLD\<close> changes neither.
\<close>

theorem in_trade_has_entry_price:
  "(\<exists>s ds. run p init bs = Inr (s, ds) \<and> (in_trade s \<longrightarrow> entry_price s \<noteq> None))
   \<and> (next_step p b s = Inr (s', ENTER_LONG n) \<longrightarrow>
        \<not> in_trade s \<and> in_trade s' \<and> entry_price s' = Some (data_close b))
   \<and> (next_step p b s = Inr (s', EXIT r) \<longrightarrow>
        in_trade s \<and> \<not> in_trade s' \<and> entry_price s' = entry_price s)
   \<and> (next_step p b s = Inr (s', HOLD) \<longrightarrow>
        in_trade s' = in_trade s \<and> entry_price s' = entry_price s)"
proof -
  have i: "in_trade init \<longrightarrow> entry_price init \<noteq> None" by (simp add: init_def)
  have a: "\<exists>s ds. run p init bs = Inr (s, ds) \<and> (in_trade s \<longrightarrow> entry_price s \<noteq> None)"
    using run_total [OF i, of p bs] by blast
  have st: "(next_step p b s = Inr (s', ENTER_LONG n) \<longrightarrow>
        \<not> in_trade s \<and> in_trade s' \<and> entry_price s' = Some (data_close b))
   \<and> (next_step p b s = Inr (s', EXIT r) \<longrightarrow>
        in_trade s \<and> \<not> in_trade s' \<and> entry_price s' = entry_price s)
   \<and> (next_step p b s = Inr (s', HOLD) \<longrightarrow>
        in_trade s' = in_trade s \<and> entry_price s' = entry_price s)"
  proof (cases "in_trade s")
    case False
    then show ?thesis by (auto simp: next_step_flat split: if_splits)
  next
    case True
    show ?thesis
    proof (cases "entry_price s")
      case None
      then show ?thesis using True by (simp add: next_step_long_unset)
    next
      case (Some e)
      then show ?thesis using True by (auto simp: next_step_long [of s e] split: if_splits)
    qed
  qed
  show ?thesis using a st by blast
qed

theorem in_trade_has_entry_price_witness:
  "next_step default_params entry_bar init = Inr (just_entered, ENTER_LONG 100)
   \<and> \<not> in_trade init \<and> in_trade just_entered
   \<and> entry_price just_entered = Some (data_close entry_bar)
   \<and> next_step default_params tp_bar just_entered =
       Inr (just_entered\<lparr>bars_in_trade := 1, in_trade := False\<rparr>,
            EXIT (TP_hit (499 / 5) (498 / 5 * (1 + 1 / 1000))))
   \<and> entry_price (just_entered\<lparr>bars_in_trade := 1, in_trade := False\<rparr>) = entry_price just_entered
   \<and> (\<exists>s ds. run default_params init [entry_bar, tp_bar] = Inr (s, ds)
        \<and> (in_trade s \<longrightarrow> entry_price s \<noteq> None))"
proof -
  have en: "next_step default_params entry_bar init = Inr (just_entered, ENTER_LONG 100)"
    by (simp add: next_step_def calc_size_def Let_def default_params_def
        entry_bar_def init_def just_entered_def)
  have ex: "next_step default_params tp_bar just_entered =
       Inr (just_entered\<lparr>bars_in_trade := 1, in_trade := False\<rparr>,
            EXIT (TP_hit (499 / 5) (498 / 5 * (1 + 1 / 1000))))"
    by (simp add: next_step_def Let_def default_params_def
        entry_bar_def flat_bar_def tp_bar_def just_entered_def)
  show ?thesis
    using en ex
      in_trade_has_entry_price [where p = default_params and bs = "[entry_bar, tp_bar]"
        and b = entry_bar and s = init and s' = just_entered and n = 100]
      in_trade_has_entry_price [where p = default_params and bs = "[entry_bar, tp_bar]"
        and b = tp_bar and s = just_entered
        and s' = "just_entered\<lparr>bars_in_trade := 1, in_trade := False\<rparr>"
        and r = "TP_hit (499 / 5) (498 / 5 * (1 + 1 / 1000))"]
    by simp
qed

section \<open>Bars are not validated\<close>




end
